theory Spec2Isabelle
  imports Complex_Main "HOL-Library.Char_ord" "HOL-Library.List_Lexorder"
    "HOL-Library.Product_Lexorder" "HOL-Library.Multiset"
begin

section \<open>Values, rows and errors\<close>

text \<open>
  The report generator receives \<^verbatim>\<open>rows\<close>, a list of Python dicts. A numeric field holds an
  int, a float, a string or None; \<^verbatim>\<open>pd.DataFrame(rows)\<close> fills a key that a row does not
  carry with NaN. Python floats are idealised as rationals (no rounding, no infinities), and
  None and NaN are one value \<open>NullV\<close>: pandas treats both as missing.
  The label fields (date, order_id, model) are strings, as the CSV reader delivers them.
  A string is the list of its bytes (UTF-8).
  Every field of a row is optional: \<open>None\<close> is a key the dict does not have.
\<close>

datatype cell = NullV | IntV int | FloatV rat | StrV string

record raw_row =
  f_date :: "string option option"
  f_order_id :: "string option option"
  f_model :: "string option option"
  f_quantity :: "cell option"
  f_unit_price :: "cell option"
  f_price :: "cell option"
  f_total :: "cell option"

type_synonym path = "string \<times> string"

text \<open>
  The exceptions the code can raise. \<open>InvalidLiteral s\<close> is the ValueError
  \<^verbatim>\<open>invalid literal for int() with base 10: s\<close>, \<open>CouldNotConvert s\<close> the ValueError
  \<^verbatim>\<open>could not convert string to float: s\<close>, \<open>IntCastingNaNError\<close> the failure of
  \<^verbatim>\<open>astype(int)\<close> on a missing value (pandas' IntCastingNaNError on a numeric column; int(None)
  or int(nan) on an object column), \<open>OverflowError\<close> the failure to convert a Python int
  that does not fit 64 bits, \<open>DateParseError s\<close> what \<^verbatim>\<open>pd.to_datetime\<close> raises on a
  string it cannot read, \<open>RenderError\<close> and \<open>ComposeError\<close> whatever matplotlib or reportlab
  raise. \<open>NonFinite s\<close> is no exception of the code: float() reads the literal \<open>s\<close> as an
  infinite float and the code goes on with it; the model, whose numbers are rationals, stops
  there.
\<close>

datatype error =
    KeyError string
  | InvalidLiteral string
  | CouldNotConvert string
  | IntCastingNaNError
  | OverflowError
  | NonFinite string
  | DateParseError string
  | RenderError
  | ComposeError
  | FileNotFoundError path

section \<open>What the libraries leave open\<close>

text \<open>
  Four things the source does not decide and the libraries fix by their implementation.
  They are parameters of the model: every property below holds whatever they are.
  \<^item> \<open>int_cast c\<close>: what \<^verbatim>\<open>astype(int)\<close> makes of a number \<open>c\<close> outside the 64-bit range in a
    column of numbers (numpy wraps some of them and raises on others);
  \<^item> \<open>ext_int s\<close>: what int() makes of a string with a character outside ASCII (it reads
    the decimal digits and the blanks of Unicode) or of more than 4300 characters (a recent
    Python refuses a literal of more than 4300 digits): its value, or the exception it raises;
  \<^item> \<open>uni_float s\<close>: what float() makes of a string with a character outside ASCII;
  \<^item> \<open>rank_ties ks i\<close>: the place the sort gives position \<open>i\<close> of the keys \<open>ks\<close> among the
    positions of equal key (\<^verbatim>\<open>sort_values\<close> sorts by numpy's quicksort, which sees the keys
    only and fixes no order among equal ones).
\<close>

datatype pyfloat = Finite rat | NotANumber | Infinite

record lib =
  int_cast :: "cell \<Rightarrow> error + int"
  ext_int :: "string \<Rightarrow> error + int"
  uni_float :: "string \<Rightarrow> pyfloat option"
  rank_ties :: "rat list \<Rightarrow> nat \<Rightarrow> nat"

section \<open>Python's int() and float() on strings\<close>

text \<open>On an ASCII string both strip the blanks of C: tab to carriage return, and space.\<close>

definition is_space :: "char \<Rightarrow> bool" where
  "is_space c = ((of_char c :: nat) \<in> {9, 10, 11, 12, 13, 32})"

definition is_ascii :: "string \<Rightarrow> bool" where
  "is_ascii s = list_all (\<lambda>c. (of_char c :: nat) < 128) s"

definition strip :: "string \<Rightarrow> string" where
  "strip s = rev (dropWhile is_space (rev (dropWhile is_space s)))"

definition digit_val :: "char \<Rightarrow> nat option" where
  "digit_val c =
     (let n = (of_char c :: nat) in if 48 \<le> n \<and> n \<le> 57 then Some (n - 48) else None)"

text \<open>
  A digit part is a digit followed by digits, each optionally preceded by one underscore.
  \<open>digitpart\<close> reads the longest one at the head of the string and returns its digits and
  the rest of the string.
\<close>

fun digitpart :: "string \<Rightarrow> nat list \<times> string" where
  "digitpart [] = ([], [])"
| "digitpart [c] = (case digit_val c of None \<Rightarrow> ([], [c]) | Some v \<Rightarrow> ([v], []))"
| "digitpart (c # u # cs) =
     (case digit_val c of
        None \<Rightarrow> ([], c # u # cs)
      | Some v \<Rightarrow>
          (if u = CHR ''_'' \<and> cs \<noteq> [] \<and> digit_val (hd cs) \<noteq> None
           then (let (ds, r) = digitpart cs in (v # ds, r))
           else (let (ds, r) = digitpart (u # cs) in (v # ds, r))))"

definition digits_value :: "nat list \<Rightarrow> int" where
  "digits_value ds = foldl (\<lambda>acc d. 10 * acc + int d) 0 ds"

definition split_sign :: "string \<Rightarrow> bool \<times> string" where
  "split_sign s =
     (case s of
        [] \<Rightarrow> (False, [])
      | c # cs \<Rightarrow> if c = CHR ''-'' then (True, cs) else if c = CHR ''+'' then (False, cs)
                  else (False, s))"

definition ascii_int :: "string \<Rightarrow> int option" where
  "ascii_int s =
     (let (neg, t) = split_sign (strip s); (ds, r) = digitpart t
      in if ds = [] \<or> r \<noteq> [] then None
         else Some (if neg then - digits_value ds else digits_value ds))"

text \<open>int() on a string: its value, or the ValueError for a string that is no literal.\<close>

definition py_int :: "lib \<Rightarrow> string \<Rightarrow> error + int" where
  "py_int L s =
     (if is_ascii s \<and> length s \<le> 4300
      then (case ascii_int s of None \<Rightarrow> Inl (InvalidLiteral s) | Some i \<Rightarrow> Inr i)
      else ext_int L s)"

text \<open>
  float() reads a decimal literal: digit parts around an optional point, then an optional
  exponent; or, in any case of the letters, \<^verbatim>\<open>nan\<close>, \<^verbatim>\<open>inf\<close> or \<^verbatim>\<open>infinity\<close>. The value of
  a decimal literal is its exact value; from \<open>float_limit\<close> on, where a double rounds to
  infinity, it is infinite.
\<close>

definition float_limit :: int where
  "float_limit = 2 ^ 1024 - 2 ^ 970"

definition py_exponent :: "string \<Rightarrow> int option" where
  "py_exponent s =
     (case s of
        [] \<Rightarrow> Some 0
      | c # cs \<Rightarrow>
          if c = CHR ''e'' \<or> c = CHR ''E''
          then (let (neg, t) = split_sign cs; (ds, r) = digitpart t
                in if ds = [] \<or> r \<noteq> [] then None
                   else Some (if neg then - digits_value ds else digits_value ds))
          else None)"

definition pow10 :: "int \<Rightarrow> rat" where
  "pow10 e = (if 0 \<le> e then 10 ^ nat e else 1 / 10 ^ nat (- e))"

definition lower :: "string \<Rightarrow> string" where
  "lower s =
     map (\<lambda>c. let n = (of_char c :: nat) in if 65 \<le> n \<and> n \<le> 90 then char_of (n + 32) else c) s"

definition ascii_float :: "string \<Rightarrow> pyfloat option" where
  "ascii_float s =
     (let (neg, t) = split_sign (strip s)
      in if lower t = ''nan'' then Some NotANumber
         else if lower t = ''inf'' \<or> lower t = ''infinity'' then Some Infinite
         else (let (ip, r1) = digitpart t;
                   (fp, r2) = (case r1 of
                                 [] \<Rightarrow> ([], [])
                               | c # cs \<Rightarrow> if c = CHR ''.'' then digitpart cs else ([], r1))
               in if ip = [] \<and> fp = [] then None
                  else (case py_exponent r2 of
                          None \<Rightarrow> None
                        | Some e \<Rightarrow>
                            (let m = of_int (digits_value (ip @ fp))
                                       * pow10 (e - int (length fp))
                             in if of_int float_limit \<le> m then Some Infinite
                                else Some (Finite (if neg then - m else m))))))"

definition py_float :: "lib \<Rightarrow> string \<Rightarrow> pyfloat option" where
  "py_float L s = (if is_ascii s then ascii_float s else uni_float L s)"

section \<open>\<^verbatim>\<open>_safe_df_from_rows\<close>\<close>

text \<open>
  A column exists in the DataFrame when some row has the key. A row without the key holds
  NaN in that column.
\<close>

definition has_col :: "(raw_row \<Rightarrow> 'a option) \<Rightarrow> raw_row list \<Rightarrow> bool" where
  "has_col f rows = list_ex (\<lambda>r. f r \<noteq> None) rows"

definition column :: "(raw_row \<Rightarrow> cell option) \<Rightarrow> raw_row list \<Rightarrow> cell list" where
  "column f rows = map (\<lambda>r. case f r of None \<Rightarrow> NullV | Some c \<Rightarrow> c) rows"

definition labels :: "(raw_row \<Rightarrow> string option option) \<Rightarrow> raw_row list \<Rightarrow> string option list" where
  "labels f rows = map (\<lambda>r. case f r of None \<Rightarrow> None | Some l \<Rightarrow> l) rows"

text \<open>
  \<^verbatim>\<open>astype(int)\<close>. The integer of a cell: an int stays, a float is truncated towards zero,
  a string goes through int(), a missing value raises. The integer must fit 64 bits. In a
  column that holds a string the cells are Python objects, converted one by one, and an
  integer that does not fit raises OverflowError; in a column of numbers the outcome for it
  is \<open>int_cast\<close>. The first cell that fails decides the exception.
\<close>

definition trunc :: "rat \<Rightarrow> int" where
  "trunc q = (if 0 \<le> q then \<lfloor>q\<rfloor> else \<lceil>q\<rceil>)"

definition in_int64 :: "int \<Rightarrow> bool" where
  "in_int64 i = (- (2 ^ 63) \<le> i \<and> i < 2 ^ 63)"

fun is_str :: "cell \<Rightarrow> bool" where
  "is_str (StrV s) = True"
| "is_str c = False"

fun int_value :: "lib \<Rightarrow> cell \<Rightarrow> error + int" where
  "int_value L NullV = Inl IntCastingNaNError"
| "int_value L (IntV i) = Inr i"
| "int_value L (FloatV q) = Inr (trunc q)"
| "int_value L (StrV s) = py_int L s"

definition to_int :: "lib \<Rightarrow> bool \<Rightarrow> cell \<Rightarrow> error + int" where
  "to_int L object c =
     (case int_value L c of
        Inl e \<Rightarrow> Inl e
      | Inr i \<Rightarrow> if in_int64 i then Inr i
                 else if object then Inl OverflowError else int_cast L c)"

text \<open>
  \<^verbatim>\<open>astype(float)\<close>: a missing value stays NaN (\<open>None\<close>), a string goes through float(), and
  the literal \<^verbatim>\<open>nan\<close> gives NaN. An int from \<open>float_limit\<close> on (it is a Python object
  then) raises OverflowError.
\<close>

fun to_float :: "lib \<Rightarrow> cell \<Rightarrow> error + rat option" where
  "to_float L NullV = Inr None"
| "to_float L (IntV i) =
     (if \<bar>i\<bar> < float_limit then Inr (Some (of_int i)) else Inl OverflowError)"
| "to_float L (FloatV q) = Inr (Some q)"
| "to_float L (StrV s) =
     (case py_float L s of
        None \<Rightarrow> Inl (CouldNotConvert s)
      | Some (Finite q) \<Rightarrow> Inr (Some q)
      | Some NotANumber \<Rightarrow> Inr None
      | Some Infinite \<Rightarrow> Inl (NonFinite s))"

fun astype :: "('a \<Rightarrow> error + 'b) \<Rightarrow> 'a list \<Rightarrow> error + 'b list" where
  "astype conv [] = Inr []"
| "astype conv (c # cs) =
     (case conv c of
        Inl e \<Rightarrow> Inl e
      | Inr v \<Rightarrow> (case astype conv cs of Inl e \<Rightarrow> Inl e | Inr vs \<Rightarrow> Inr (v # vs)))"

definition astype_int :: "lib \<Rightarrow> cell list \<Rightarrow> error + int list" where
  "astype_int L col = astype (to_int L (list_ex is_str col)) col"

text \<open>
  The DataFrame after normalisation: the rows as given (for the label columns and the test
  for a column) and the three numeric columns the function sets. The column \<open>total\<close> is
  assigned from the product, whatever the input had under that key.
\<close>

record frame =
  src :: "raw_row list"
  quantity :: "int list"
  unit_price :: "rat option list"
  total :: "rat option list"

definition times :: "int \<Rightarrow> rat option \<Rightarrow> rat option" where
  "times q p = map_option (\<lambda>x. of_int q * x) p"

text \<open>Lines 25 to 31: the two columns as they stand before the conversions.\<close>

definition quantity_column :: "raw_row list \<Rightarrow> cell list" where
  "quantity_column rows =
     (if \<not> has_col f_quantity rows then replicate (length rows) (IntV 1)
      else column f_quantity rows)"

definition unit_price_column :: "raw_row list \<Rightarrow> cell list" where
  "unit_price_column rows =
     (if \<not> has_col f_unit_price rows
      then (if has_col f_price rows then column f_price rows
            else replicate (length rows) (FloatV 0))
      else column f_unit_price rows)"

definition safe_df_from_rows :: "lib \<Rightarrow> raw_row list \<Rightarrow> error + frame" where
  "safe_df_from_rows L rows =
     (case astype_int L (quantity_column rows) of
        Inl e \<Rightarrow> Inl e
      | Inr qs \<Rightarrow>
          (case astype (to_float L) (unit_price_column rows) of
             Inl e \<Rightarrow> Inl e
           | Inr ps \<Rightarrow>
               Inr \<lparr>src = rows, quantity = qs, unit_price = ps, total = map2 times qs ps\<rparr>))"

section \<open>The aggregates of \<^verbatim>\<open>generate_pdf\<close>\<close>

text \<open>\<^verbatim>\<open>Series.sum()\<close> skips NaN: a missing total adds nothing.\<close>

definition skipna :: "rat option \<Rightarrow> rat" where
  "skipna t = (case t of None \<Rightarrow> 0 | Some x \<Rightarrow> x)"

definition total_revenue :: "frame \<Rightarrow> rat" where
  "total_revenue df = sum_list (map skipna (total df))"

text \<open>\<^verbatim>\<open>Series.nunique()\<close> counts the distinct values that are not missing.\<close>

definition nunique :: "string option list \<Rightarrow> nat" where
  "nunique ls = length (remdups (map the (filter (\<lambda>l. l \<noteq> None) ls)))"

definition orders :: "frame \<Rightarrow> nat" where
  "orders df =
     (if has_col f_order_id (src df) then nunique (labels f_order_id (src df))
      else length (src df))"

text \<open>
  \<^verbatim>\<open>df.groupby(key)['total'].sum()\<close>: a KeyError when the frame has no such column; otherwise
  one entry per distinct key that is not missing, the keys in ascending order (groupby sorts
  them), each with the sum of the totals of its rows. Rows whose key is missing belong to
  no group.
\<close>

definition group_keys :: "string option list \<Rightarrow> string list" where
  "group_keys ks = sort (remdups (map the (filter (\<lambda>l. l \<noteq> None) ks)))"

definition group_sum :: "string option list \<Rightarrow> rat option list \<Rightarrow> string \<Rightarrow> rat" where
  "group_sum ks ts k = sum_list (map (skipna \<circ> snd) (filter (\<lambda>e. fst e = Some k) (zip ks ts)))"

definition groupby_sum ::
  "(raw_row \<Rightarrow> string option option) \<Rightarrow> string \<Rightarrow> frame \<Rightarrow> error + (string \<times> rat) list" where
  "groupby_sum f name df =
     (if \<not> has_col f (src df) then Inl (KeyError name)
      else (let ks = labels f (src df)
            in Inr (map (\<lambda>k. (k, group_sum ks (total df) k)) (group_keys ks))))"

text \<open>
  \<^verbatim>\<open>sort_values\<close>: the entries in ascending order of their keys; among entries of equal key,
  in the order of the places \<open>tie\<close> gives their positions. Whatever \<open>tie\<close> is, the result
  is a sorted rearrangement of the entries, and every order among equal keys is the result
  for some \<open>tie\<close>. With \<open>ascending=False\<close> the key is the negated value.
\<close>

definition argsort_by :: "('k list \<Rightarrow> nat \<Rightarrow> nat) \<Rightarrow> ('a \<Rightarrow> 'k::linorder) \<Rightarrow> 'a list \<Rightarrow> 'a list" where
  "argsort_by tie key xs =
     map snd (sort_key (\<lambda>ix. (key (snd ix), tie (map key xs) (fst ix))) (enumerate 0 xs))"

definition sort_values_desc :: "lib \<Rightarrow> (string \<times> rat) list \<Rightarrow> (string \<times> rat) list" where
  "sort_values_desc L g = argsort_by (rank_ties L) (\<lambda>e. - snd e) g"

definition top_models :: "lib \<Rightarrow> frame \<Rightarrow> error + (string \<times> rat) list" where
  "top_models L df =
     (case groupby_sum f_model ''model'' df of
        Inl e \<Rightarrow> Inl e
      | Inr g \<Rightarrow> Inr (take 5 (sort_values_desc L g)))"

section \<open>The daily series of \<^verbatim>\<open>_create_charts\<close>\<close>

text \<open>
  \<^verbatim>\<open>pd.to_datetime\<close> is a parameter \<open>parse\<close>: it reads one date string, or fails. The
  series is grouped on the strings, then each key is parsed and the rows are sorted by the
  parsed date, entries of one date in the order \<open>tie\<close> gives.
\<close>

definition to_datetime ::
  "(string \<Rightarrow> 'd option) \<Rightarrow> (string \<times> rat) list \<Rightarrow> error + ('d \<times> rat) list" where
  "to_datetime parse g =
     astype (\<lambda>e. case parse (fst e) of None \<Rightarrow> Inl (DateParseError (fst e))
                                     | Some d \<Rightarrow> Inr (d, snd e)) g"

definition daily_series ::
  "(string \<Rightarrow> ('d::linorder) option) \<Rightarrow> ('d list \<Rightarrow> nat \<Rightarrow> nat) \<Rightarrow> frame
     \<Rightarrow> error + ('d \<times> rat) list" where
  "daily_series parse tie df =
     (case groupby_sum f_date ''date'' df of
        Inl e \<Rightarrow> Inl e
      | Inr g \<Rightarrow>
          (case to_datetime parse g of
             Inl e \<Rightarrow> Inl e
           | Inr ds \<Rightarrow> Inr (argsort_by tie fst ds)))"

text \<open>
  One reader of dates as \<^verbatim>\<open>pd.to_datetime\<close> reads them: year-month-day with a four-digit
  year and a month and a day of one or two digits. It stands for \<^verbatim>\<open>pd.to_datetime\<close> on
  strings of that shape; other shapes are not read here.
\<close>

fun split_on :: "char \<Rightarrow> string \<Rightarrow> string list" where
  "split_on c [] = [[]]"
| "split_on c (x # xs) =
     (if x = c then [] # split_on c xs
      else (case split_on c xs of [] \<Rightarrow> [[x]] | w # ws \<Rightarrow> (x # w) # ws))"

definition all_digits :: "string \<Rightarrow> nat option" where
  "all_digits s =
     (if s \<noteq> [] \<and> list_all (\<lambda>c. digit_val c \<noteq> None) s
      then Some (nat (digits_value (map (the \<circ> digit_val) s))) else None)"

definition days_in_month :: "nat \<Rightarrow> nat \<Rightarrow> nat" where
  "days_in_month y m =
     (if m = 2 then (if (y mod 4 = 0 \<and> y mod 100 \<noteq> 0) \<or> y mod 400 = 0 then 29 else 28)
      else if m \<in> {4, 6, 9, 11} then 30 else 31)"

definition ymd_date :: "string \<Rightarrow> (nat \<times> nat \<times> nat) option" where
  "ymd_date s =
     (case split_on CHR ''-'' s of
        [ys, ms, ds] \<Rightarrow>
          (case (all_digits ys, all_digits ms, all_digits ds) of
             (Some y, Some m, Some d) \<Rightarrow>
               if length ys = 4 \<and> length ms \<le> 2 \<and> length ds \<le> 2
                  \<and> 1 \<le> m \<and> m \<le> 12 \<and> 1 \<le> d \<and> d \<le> days_in_month y m
               then Some (y, m, d) else None
           | _ \<Rightarrow> None)
      | _ \<Rightarrow> None)"

section \<open>Files\<close>

text \<open>
  A path is a directory and a file name. The file system is the list of directories and the
  files with their contents, each path once. A PDF holds what the document shows; a PNG is
  opaque.
\<close>

record sample_row =
  s_date :: "string option"
  s_order :: "string option option"
  s_model :: "string option"
  s_quantity :: int
  s_unit_price :: "rat option"
  s_total :: "rat option"

record report =
  r_title :: string
  r_total_revenue :: rat
  r_orders :: nat
  r_top_models :: "(string \<times> rat) list"
  r_sample :: "sample_row list"

record meta =
  m_id :: nat
  m_timestamp :: string
  m_from :: string
  m_to :: string
  m_subject :: string
  m_body :: string
  m_attachment :: string

datatype content = Png | Pdf report | MetaJson meta | Blob string

record fsys =
  dirs :: "string list"
  files :: "(path \<times> content) list"

definition exists_file :: "fsys \<Rightarrow> path \<Rightarrow> bool" where
  "exists_file fs p = (map_of (files fs) p \<noteq> None)"

definition write_file :: "path \<Rightarrow> content \<Rightarrow> fsys \<Rightarrow> fsys" where
  "write_file p c fs = fs\<lparr>files := (p, c) # filter (\<lambda>e. fst e \<noteq> p) (files fs)\<rparr>"

definition remove_file :: "path \<Rightarrow> fsys \<Rightarrow> fsys" where
  "remove_file p fs = fs\<lparr>files := filter (\<lambda>e. fst e \<noteq> p) (files fs)\<rparr>"

definition mkdir :: "string \<Rightarrow> fsys \<Rightarrow> fsys" where
  "mkdir d fs = (if d \<in> set (dirs fs) then fs else fs\<lparr>dirs := d # dirs fs\<rparr>)"

text \<open>\<^verbatim>\<open>os.rmdir\<close> removes an empty directory; on one that holds a file it raises OSError,
  which the caller swallows.\<close>

definition rmdir :: "string \<Rightarrow> fsys \<Rightarrow> fsys" where
  "rmdir d fs =
     (if list_ex (\<lambda>e. fst (fst e) = d) (files fs) then fs
      else fs\<lparr>dirs := removeAll d (dirs fs)\<rparr>)"

section \<open>\<^verbatim>\<open>_create_charts\<close> and \<^verbatim>\<open>generate_pdf\<close>\<close>

text \<open>
  What the run does not decide from its arguments: what the libraries leave open (\<open>py\<close>,
  and \<open>date_ties\<close> for the sort of the daily series), the directory
  \<^verbatim>\<open>tempfile.mkdtemp\<close> creates, today's date, and whether matplotlib draws each chart and
  reportlab builds the document or raise (matplotlib on data it refuses, such as a negative
  share of the pie; reportlab on a destination it cannot write).
\<close>

record 'd env =
  py :: lib
  date_ties :: "'d list \<Rightarrow> nat \<Rightarrow> nat"
  tmpdir :: string
  today :: string
  pie_ok :: bool
  daily_ok :: bool
  build_ok :: bool

definition create_charts ::
  "'d env \<Rightarrow> (string \<Rightarrow> ('d::linorder) option) \<Rightarrow> frame \<Rightarrow> string \<Rightarrow> fsys
     \<Rightarrow> (error + path \<times> path) \<times> fsys" where
  "create_charts ev parse df tmp fs =
     (case groupby_sum f_model ''model'' df of
        Inl e \<Rightarrow> (Inl e, fs)
      | Inr g \<Rightarrow>
          (let by_model = sort_values_desc (py ev) g; pie_path = (tmp, ''pie.png'')
           in if \<not> pie_ok ev then (Inl RenderError, fs)
              else (let fs1 = write_file pie_path Png fs
                    in case daily_series parse (date_ties ev) df of
                         Inl e \<Rightarrow> (Inl e, fs1)
                       | Inr daily \<Rightarrow>
                           (let daily_path = (tmp, ''daily.png'')
                            in if \<not> daily_ok ev then (Inl RenderError, fs1)
                               else (Inr (pie_path, daily_path),
                                     write_file daily_path Png fs1)))))"

definition sample_rows :: "frame \<Rightarrow> sample_row list" where
  "sample_rows df =
     map (\<lambda>(r, q, p, t).
            \<lparr>s_date = (case f_date r of None \<Rightarrow> None | Some l \<Rightarrow> l),
             s_order = (if has_col f_order_id (src df)
                        then Some (case f_order_id r of None \<Rightarrow> None | Some l \<Rightarrow> l)
                        else None),
             s_model = (case f_model r of None \<Rightarrow> None | Some l \<Rightarrow> l),
             s_quantity = q, s_unit_price = p, s_total = t\<rparr>)
         (take 20 (zip (src df) (zip (quantity df) (zip (unit_price df) (total df)))))"

definition report_title :: "'d env \<Rightarrow> string option \<Rightarrow> string" where
  "report_title ev title =
     (case title of
        None \<Rightarrow> ''Sales Report - '' @ today ev
      | Some t \<Rightarrow> if t = [] then ''Sales Report - '' @ today ev else t)"

definition cleanup :: "path \<Rightarrow> path \<Rightarrow> string \<Rightarrow> fsys \<Rightarrow> fsys" where
  "cleanup pie_img daily_img tmp fs =
     (let fs1 = (if exists_file fs pie_img then remove_file pie_img fs else fs);
          fs2 = (if exists_file fs1 daily_img then remove_file daily_img fs1 else fs1)
      in rmdir tmp fs2)"

definition generate_pdf ::
  "'d env \<Rightarrow> (string \<Rightarrow> ('d::linorder) option) \<Rightarrow> raw_row list \<Rightarrow> path \<Rightarrow> string option \<Rightarrow> fsys
     \<Rightarrow> (error + path) \<times> fsys" where
  "generate_pdf ev parse rows out_pdf_path title fs =
     (case safe_df_from_rows (py ev) rows of
        Inl e \<Rightarrow> (Inl e, fs)
      | Inr df \<Rightarrow>
          (case top_models (py ev) df of
             Inl e \<Rightarrow> (Inl e, fs)
           | Inr top5 \<Rightarrow>
               (let fs1 = mkdir (tmpdir ev) fs
                in case create_charts ev parse df (tmpdir ev) fs1 of
                     (Inl e, fs2) \<Rightarrow> (Inl e, fs2)
                   | (Inr (pie_img, daily_img), fs2) \<Rightarrow>
                       (let fs3 = mkdir (fst out_pdf_path) fs2
                        in if \<not> build_ok ev then (Inl ComposeError, fs3)
                           else (let doc = \<lparr>r_title = report_title ev title,
                                            r_total_revenue = total_revenue df,
                                            r_orders = orders df,
                                            r_top_models = top5,
                                            r_sample = sample_rows df\<rparr>;
                                     fs4 = write_file out_pdf_path (Pdf doc) fs3
                                 in (Inr out_pdf_path,
                                     cleanup pie_img daily_img (tmpdir ev) fs4))))))"

text \<open>The document a call leaves at the path it returns, if it returns one.\<close>

definition written_report ::
  "'d env \<Rightarrow> (string \<Rightarrow> ('d::linorder) option) \<Rightarrow> raw_row list \<Rightarrow> path \<Rightarrow> string option \<Rightarrow> fsys
     \<Rightarrow> report option" where
  "written_report ev parse rows out_pdf_path title fs =
     (case generate_pdf ev parse rows out_pdf_path title fs of
        (Inl e, fs') \<Rightarrow> None
      | (Inr p, fs') \<Rightarrow>
          (case map_of (files fs') p of Some (Pdf doc) \<Rightarrow> Some doc | _ \<Rightarrow> None))"

section \<open>\<^verbatim>\<open>send_simulated_email\<close>\<close>







section \<open>Rows and tables used in the properties\<close>

text \<open>The empty dict, from which the example rows are built.\<close>

definition blank :: raw_row where
  "blank = \<lparr>f_date = None, f_order_id = None, f_model = None, f_quantity = None,
            f_unit_price = None, f_price = None, f_total = None\<rparr>"

text \<open>The row that carries under \<^verbatim>\<open>unit_price\<close> what the given row carries under \<^verbatim>\<open>price\<close>.\<close>

definition price_to_unit_price :: "raw_row \<Rightarrow> raw_row" where
  "price_to_unit_price r = r\<lparr>f_unit_price := f_price r, f_price := None\<rparr>"

definition columns :: "frame \<Rightarrow> int list \<times> rat option list \<times> rat option list" where
  "columns df = (quantity df, unit_price df, total df)"

text \<open>A complete row, and the two rows of the specification's scenario.\<close>

definition sale :: "string \<Rightarrow> string \<Rightarrow> string \<Rightarrow> int \<Rightarrow> rat \<Rightarrow> raw_row" where
  "sale d oid m q p =
     \<lparr>f_date = Some (Some d), f_order_id = Some (Some oid), f_model = Some (Some m),
      f_quantity = Some (IntV q), f_unit_price = Some (FloatV p), f_price = None,
      f_total = None\<rparr>"

definition scenario :: "raw_row list" where
  "scenario = [sale ''2024-01-01'' ''A1'' ''X'' 2 10, sale ''2024-01-01'' ''A2'' ''Y'' 1 5]"

text \<open>
  One choice of what the libraries leave open: the cast raises on every number out of range,
  no string outside ASCII or of more than 4300 characters is read, and equal keys stay in
  the order of their positions. None of the example tables has such a number or string.
\<close>

definition in_place :: "'k list \<Rightarrow> nat \<Rightarrow> nat" where
  "in_place ks i = i"

definition plain :: lib where
  "plain = \<lparr>int_cast = (\<lambda>c. Inl OverflowError), ext_int = (\<lambda>s. Inl (InvalidLiteral s)),
            uni_float = (\<lambda>s. None), rank_ties = in_place\<rparr>"

text \<open>An environment in which every chart is drawn and the document is built, and an
  empty file system.\<close>

definition fair :: "'d env" where
  "fair = \<lparr>py = plain, date_ties = in_place, tmpdir = ''/tmp/report_1'',
           today = ''2024-01-31'', pie_ok = True, daily_ok = True, build_ok = True\<rparr>"

definition no_files :: fsys where
  "no_files = \<lparr>dirs = [], files = []\<rparr>"

text \<open>A function of the frame, applied to the rows through the normalisation.\<close>

definition on_rows :: "lib \<Rightarrow> (frame \<Rightarrow> error + 'a) \<Rightarrow> raw_row list \<Rightarrow> error + 'a" where
  "on_rows L f rows = (case safe_df_from_rows L rows of Inl e \<Rightarrow> Inl e | Inr df \<Rightarrow> f df)"

section \<open>Normalisation\<close>

lemma astype_length: "astype conv cs = Inr vs \<Longrightarrow> length vs = length cs"
  by (induction cs arbitrary: vs) (auto split: sum.splits)

lemma has_col_iff: "has_col f rows \<longleftrightarrow> (\<exists>r \<in> set rows. f r \<noteq> None)"
  by (simp add: has_col_def list_ex_iff)

lemma has_col_map: "(\<And>r. f (g r) = f' r) \<Longrightarrow> has_col f (map g rows) = has_col f' rows"
  by (simp add: has_col_iff)

lemma column_map: "(\<And>r. f (g r) = f' r) \<Longrightarrow> column f (map g rows) = column f' rows"
  by (simp add: column_def)

lemma column_nth: "i < length rows \<Longrightarrow> f (rows ! i) = Some c \<Longrightarrow> column f rows ! i = c"
  by (simp add: column_def)

lemma astype_first_failure:
  "i < length cs \<Longrightarrow> conv (cs ! i) = Inl e0 \<Longrightarrow>
     \<exists>j e. j \<le> i \<and> astype conv cs = Inl e \<and> conv (cs ! j) = Inl e
           \<and> (\<forall>k<j. \<exists>v. conv (cs ! k) = Inr v)"
proof (induction cs arbitrary: i)
  case Nil
  then show ?case by simp
next
  case (Cons c cs)
  show ?case
  proof (cases "conv c")
    case (Inl e)
    then have "0 \<le> i \<and> astype conv (c # cs) = Inl e \<and> conv ((c # cs) ! 0) = Inl e
               \<and> (\<forall>k<0. \<exists>v. conv ((c # cs) ! k) = Inr v)"
      by simp
    then show ?thesis by blast
  next
    case (Inr v)
    with Cons.prems obtain i' where i: "i = Suc i'" by (cases i) auto
    with Cons.prems have "i' < length cs" and "conv (cs ! i') = Inl e0" by simp_all
    from Cons.IH [OF this] obtain j e where j: "j \<le> i'" and a: "astype conv cs = Inl e"
      and c: "conv (cs ! j) = Inl e" and b: "\<forall>k<j. \<exists>v. conv (cs ! k) = Inr v"
      by blast
    have "\<forall>k<Suc j. \<exists>w. conv ((c # cs) ! k) = Inr w"
    proof (intro allI impI)
      fix k assume "k < Suc j"
      then show "\<exists>w. conv ((c # cs) ! k) = Inr w"
        using Inr b by (cases k) auto
    qed
    moreover have "Suc j \<le> i" using i j by simp
    moreover have "astype conv (c # cs) = Inl e" using Inr a by simp
    moreover have "conv ((c # cs) ! Suc j) = Inl e" using c by simp
    ultimately show ?thesis by blast
  qed
qed

lemma py_int_ascii:
  "py_int L t = Inl e \<Longrightarrow> is_ascii t \<and> length t \<le> 4300 \<Longrightarrow> e = InvalidLiteral t"
  by (auto simp: py_int_def split: option.splits)

lemma to_int_object_Inl:
  assumes "to_int L True c = Inl e"
  shows "c = NullV \<and> e = IntCastingNaNError
         \<or> (\<exists>t. c = StrV t \<and> py_int L t = Inl e
                 \<and> (is_ascii t \<and> length t \<le> 4300 \<longrightarrow> e = InvalidLiteral t))
         \<or> (\<exists>v. int_value L c = Inr v \<and> \<not> in_int64 v \<and> e = OverflowError)"
proof (cases "int_value L c")
  case (Inl e')
  with assms have e: "e' = e" by (simp add: to_int_def)
  show ?thesis
  proof (cases c)
    case (StrV t)
    with Inl e have "py_int L t = Inl e" by simp
    with StrV py_int_ascii [of L t e] show ?thesis by blast
  qed (use Inl e in auto)
next
  case (Inr v)
  with assms show ?thesis by (auto simp: to_int_def split: if_splits)
qed

lemma to_int_Inr:
  assumes "to_int L True c = Inr v"
  shows "int_value L c = Inr v \<and> in_int64 v"
  using assms by (auto simp: to_int_def split: sum.splits if_splits)

text \<open>
  Claim C5, as the code has it. When some row carries a quantity that is a string int()
  cannot read, \<^verbatim>\<open>_safe_df_from_rows\<close> fails: the quantity column then holds Python objects,
  which \<^verbatim>\<open>astype(int)\<close> converts one by one, and it raises on the first cell it cannot
  convert, which is that row's or an earlier one. The exception is the one int() raises on
  the string of that cell (for an ASCII string of at most 4300 characters, the ValueError
  for a string that is no integer literal, carrying the string); or the failure on a missing
  value; or the OverflowError for an integer that does not fit 64 bits. It carries neither a
  row index nor a field name.
\<close>

theorem malformed_quantity_fails:
  assumes "i < length rows" and "f_quantity (rows ! i) = Some (StrV s)"
    and "py_int L s = Inl e0"
  shows "\<exists>j e. j \<le> i \<and> safe_df_from_rows L rows = Inl e
           \<and> (\<forall>k<j. \<exists>v. int_value L (column f_quantity rows ! k) = Inr v \<and> in_int64 v)
           \<and> (column f_quantity rows ! j = NullV \<and> e = IntCastingNaNError
              \<or> (\<exists>t. column f_quantity rows ! j = StrV t \<and> py_int L t = Inl e
                      \<and> (is_ascii t \<and> length t \<le> 4300 \<longrightarrow> e = InvalidLiteral t))
              \<or> (\<exists>v. int_value L (column f_quantity rows ! j) = Inr v \<and> \<not> in_int64 v
                      \<and> e = OverflowError))"
proof -
  define col where "col = column f_quantity rows"
  have r: "rows ! i \<in> set rows" using assms(1) by simp
  have hc: "has_col f_quantity rows" unfolding has_col_iff using r assms(2) by force
  have qc: "quantity_column rows = col" using hc by (simp add: quantity_column_def col_def)
  have ci: "col ! i = StrV s" unfolding col_def using assms(1,2) by (rule column_nth)
  have li: "i < length col" using assms(1) by (simp add: col_def column_def)
  have "StrV s \<in> set col" using ci li by (metis nth_mem)
  then have ob: "list_ex is_str col" unfolding list_ex_iff by (rule bexI [rotated]) simp
  have t: "to_int L True (col ! i) = Inl e0"
    using assms(3) by (simp add: ci to_int_def)
  from astype_first_failure [where conv = "to_int L True", OF li t]
  obtain j e where j: "j \<le> i" and a: "astype (to_int L True) col = Inl e"
    and c: "to_int L True (col ! j) = Inl e"
    and b: "\<forall>k<j. \<exists>v. to_int L True (col ! k) = Inr v"
    by blast
  have s: "safe_df_from_rows L rows = Inl e"
    by (simp add: safe_df_from_rows_def astype_int_def qc ob a)
  have b': "\<forall>k<j. \<exists>v. int_value L (col ! k) = Inr v \<and> in_int64 v"
    using b to_int_Inr by blast
  from j s b' to_int_object_Inl [OF c] show ?thesis unfolding col_def by blast
qed

theorem malformed_quantity_fails_witness:
  "\<exists>j e. j \<le> 1
     \<and> safe_df_from_rows plain [blank\<lparr>f_quantity := Some (IntV 3)\<rparr>,
                                blank\<lparr>f_quantity := Some (StrV ''abc'')\<rparr>] = Inl e
     \<and> (\<forall>k<j. \<exists>v. int_value plain
                     (column f_quantity [blank\<lparr>f_quantity := Some (IntV 3)\<rparr>,
                                         blank\<lparr>f_quantity := Some (StrV ''abc'')\<rparr>] ! k) = Inr v
                   \<and> in_int64 v)
     \<and> (column f_quantity [blank\<lparr>f_quantity := Some (IntV 3)\<rparr>,
                            blank\<lparr>f_quantity := Some (StrV ''abc'')\<rparr>] ! j = NullV
          \<and> e = IntCastingNaNError
        \<or> (\<exists>t. column f_quantity [blank\<lparr>f_quantity := Some (IntV 3)\<rparr>,
                                   blank\<lparr>f_quantity := Some (StrV ''abc'')\<rparr>] ! j = StrV t
                \<and> py_int plain t = Inl e
                \<and> (is_ascii t \<and> length t \<le> 4300 \<longrightarrow> e = InvalidLiteral t))
        \<or> (\<exists>v. int_value plain
                   (column f_quantity [blank\<lparr>f_quantity := Some (IntV 3)\<rparr>,
                                       blank\<lparr>f_quantity := Some (StrV ''abc'')\<rparr>] ! j) = Inr v
                \<and> \<not> in_int64 v \<and> e = OverflowError))"
proof -
  have p: "py_int plain ''abc'' = Inl (InvalidLiteral ''abc'')" by code_simp
  have i: "(1::nat) < length [blank\<lparr>f_quantity := Some (IntV 3)\<rparr>,
                            blank\<lparr>f_quantity := Some (StrV ''abc'')\<rparr>]" by simp
  have q: "f_quantity ([blank\<lparr>f_quantity := Some (IntV 3)\<rparr>,
                        blank\<lparr>f_quantity := Some (StrV ''abc'')\<rparr>] ! 1)
           = Some (StrV ''abc'')" by simp
  show ?thesis by (rule malformed_quantity_fails [OF i q p])
qed

text \<open>
  Claim C5 as stated fails: the table whose row 0 has the quantity \<^verbatim>\<open>"abc"\<close> and the table
  whose row 1 has it raise the same exception, which therefore names no row.
\<close>

theorem malformed_quantity_error_counterexample:
  "safe_df_from_rows plain [blank\<lparr>f_quantity := Some (StrV ''abc'')\<rparr>]
     = Inl (InvalidLiteral ''abc'')
   \<and> safe_df_from_rows plain [blank\<lparr>f_quantity := Some (IntV 3)\<rparr>,
                              blank\<lparr>f_quantity := Some (StrV ''abc'')\<rparr>]
       = Inl (InvalidLiteral ''abc'')"
  by code_simp

text \<open>
  Claim C4, as the code has it. The fallback to \<^verbatim>\<open>price\<close> is taken for the whole table, when
  no row has the key \<^verbatim>\<open>unit_price\<close>. For such a table, moving each price to \<^verbatim>\<open>unit_price\<close>
  changes neither the outcome of the normalisation nor its quantity, unit_price and total
  columns.
\<close>

theorem price_fallback_same_total:
  assumes "\<not> has_col f_unit_price rows"
  shows "map_sum id columns (safe_df_from_rows L (map price_to_unit_price rows))
         = map_sum id columns (safe_df_from_rows L rows)"
proof -
  have a: "has_col f_unit_price (map price_to_unit_price rows) = has_col f_price rows"
    by (rule has_col_map) (simp add: price_to_unit_price_def)
  have b: "\<not> has_col f_price (map price_to_unit_price rows)"
    by (simp add: has_col_iff price_to_unit_price_def)
  have c: "has_col f_quantity (map price_to_unit_price rows) = has_col f_quantity rows"
    by (rule has_col_map) (simp add: price_to_unit_price_def)
  have d: "column f_unit_price (map price_to_unit_price rows) = column f_price rows"
    by (rule column_map) (simp add: price_to_unit_price_def)
  have e: "column f_quantity (map price_to_unit_price rows) = column f_quantity rows"
    by (rule column_map) (simp add: price_to_unit_price_def)
  have q: "quantity_column (map price_to_unit_price rows) = quantity_column rows"
    by (simp add: quantity_column_def c e)
  have p: "unit_price_column (map price_to_unit_price rows) = unit_price_column rows"
    using assms by (simp add: unit_price_column_def a b d)
  show ?thesis
    by (simp add: safe_df_from_rows_def q p columns_def split: sum.splits)
qed

text \<open>The example of the claim: quantity 2 at the price 9.99 gives the total 19.98 both ways.\<close>

theorem price_fallback_same_total_witness:
  "map_sum id columns (safe_df_from_rows plain
      [blank\<lparr>f_quantity := Some (IntV 2), f_unit_price := Some (FloatV (999/100))\<rparr>])
   = map_sum id columns (safe_df_from_rows plain
      [blank\<lparr>f_quantity := Some (IntV 2), f_price := Some (FloatV (999/100))\<rparr>])
   \<and> map_sum id total (safe_df_from_rows plain
      [blank\<lparr>f_quantity := Some (IntV 2), f_price := Some (FloatV (999/100))\<rparr>])
     = Inr [Some (1998/100)]"
proof -
  have h: "\<not> has_col f_unit_price
             [blank\<lparr>f_quantity := Some (IntV 2), f_price := Some (FloatV (999/100))\<rparr>]"
    by (simp add: has_col_def blank_def)
  have t: "map_sum id total (safe_df_from_rows plain
      [blank\<lparr>f_quantity := Some (IntV 2), f_price := Some (FloatV (999/100))\<rparr>])
     = Inr [Some (1998/100)]" by code_simp
  show ?thesis
    using price_fallback_same_total [OF h, of plain] t
    by (simp add: price_to_unit_price_def blank_def)
qed

text \<open>
  Claim C4 as stated fails in a table where another row has \<^verbatim>\<open>unit_price\<close>: the row with
  only a price gets the total NaN, the row with the same value under \<^verbatim>\<open>unit_price\<close> 19.98.
\<close>

theorem price_fallback_mixed_table_counterexample:
  "map_sum id total (safe_df_from_rows plain
      [blank\<lparr>f_quantity := Some (IntV 2), f_price := Some (FloatV (999/100))\<rparr>,
       blank\<lparr>f_quantity := Some (IntV 1), f_unit_price := Some (FloatV 1)\<rparr>])
     = Inr [None, Some 1]
   \<and> map_sum id total (safe_df_from_rows plain
      [blank\<lparr>f_quantity := Some (IntV 2), f_unit_price := Some (FloatV (999/100))\<rparr>,
       blank\<lparr>f_quantity := Some (IntV 1), f_unit_price := Some (FloatV 1)\<rparr>])
     = Inr [Some (1998/100), Some 1]"
  by code_simp

lemma safe_df_Inr:
  assumes "safe_df_from_rows L rows = Inr df"
  shows "src df = rows" and "astype_int L (quantity_column rows) = Inr (quantity df)"
    and "astype (to_float L) (unit_price_column rows) = Inr (unit_price df)"
    and "total df = map2 times (quantity df) (unit_price df)"
  using assms by (auto simp: safe_df_from_rows_def split: sum.splits)

lemma length_quantity_column: "length (quantity_column rows) = length rows"
  by (simp add: quantity_column_def column_def)

lemma length_unit_price_column: "length (unit_price_column rows) = length rows"
  by (simp add: unit_price_column_def column_def)

lemma safe_df_lengths:
  assumes "safe_df_from_rows L rows = Inr df"
  shows "length (quantity df) = length rows" and "length (unit_price df) = length rows"
    and "length (total df) = length rows"
proof -
  note d = safe_df_Inr [OF assms]
  show q: "length (quantity df) = length rows"
    using astype_length [OF d(2) [unfolded astype_int_def]] by (simp add: length_quantity_column)
  show p: "length (unit_price df) = length rows"
    using astype_length [OF d(3)] by (simp add: length_unit_price_column)
  show "length (total df) = length rows"
    by (simp add: d(4) q p)
qed

section \<open>Files\<close>

lemma map_of_filter_fst:
  "map_of (filter (\<lambda>e. fst e \<noteq> p) xs) q = (if q = p then None else map_of xs q)"
  by (induction xs) auto

lemma lookup_write_file:
  "map_of (files (write_file p c fs)) q = (if q = p then Some c else map_of (files fs) q)"
  by (simp add: write_file_def map_of_filter_fst)

lemma lookup_remove_file:
  "map_of (files (remove_file p fs)) q = (if q = p then None else map_of (files fs) q)"
  by (simp add: remove_file_def map_of_filter_fst)

lemma files_mkdir: "files (mkdir d fs) = files fs"
  by (simp add: mkdir_def)

lemma files_rmdir: "files (rmdir d fs) = files fs"
  by (simp add: rmdir_def)


lemma create_charts_Inr:
  assumes "create_charts ev parse df tmp fs = (Inr (a, b), fs2)"
  shows "a = (tmp, ''pie.png'') \<and> b = (tmp, ''daily.png'')
         \<and> fs2 = write_file b Png (write_file a Png fs)"
  using assms
  by (auto simp: create_charts_def Let_def split: sum.splits if_splits)

lemma generate_pdf_Inr:
  assumes "generate_pdf ev parse rows out title fs = (Inr p, fs')"
  obtains df top5 where "safe_df_from_rows (py ev) rows = Inr df"
    and "top_models (py ev) df = Inr top5"
    and "p = out"
    and "fs' = cleanup (tmpdir ev, ''pie.png'') (tmpdir ev, ''daily.png'') (tmpdir ev)
           (write_file out (Pdf \<lparr>r_title = report_title ev title,
               r_total_revenue = total_revenue df, r_orders = orders df,
               r_top_models = top5, r_sample = sample_rows df\<rparr>)
             (mkdir (fst out)
               (write_file (tmpdir ev, ''daily.png'') Png
                 (write_file (tmpdir ev, ''pie.png'') Png (mkdir (tmpdir ev) fs)))))"
proof (cases "safe_df_from_rows (py ev) rows")
  case (Inl e)
  with assms show ?thesis by (simp add: generate_pdf_def)
next
  case df: (Inr df)
  show ?thesis
  proof (cases "top_models (py ev) df")
    case (Inl e)
    with assms df show ?thesis by (simp add: generate_pdf_def)
  next
    case tm: (Inr top5)
    obtain r fs2 where cc: "create_charts ev parse df (tmpdir ev) (mkdir (tmpdir ev) fs) = (r, fs2)"
      by (cases "create_charts ev parse df (tmpdir ev) (mkdir (tmpdir ev) fs)")
    show ?thesis
    proof (cases r)
      case (Inl e)
      with assms df tm cc show ?thesis by (simp add: generate_pdf_def)
    next
      case (Inr ab)
      obtain a b where ab: "ab = (a, b)" by (cases ab)
      from create_charts_Inr [OF cc [unfolded Inr ab]]
      have a: "a = (tmpdir ev, ''pie.png'')" and b: "b = (tmpdir ev, ''daily.png'')"
        and fs2: "fs2 = write_file b Png (write_file a Png (mkdir (tmpdir ev) fs))"
        by simp_all
      have u: "generate_pdf ev parse rows out title fs
          = (if \<not> build_ok ev then (Inl ComposeError, mkdir (fst out) fs2)
             else (Inr out, cleanup a b (tmpdir ev)
               (write_file out (Pdf \<lparr>r_title = report_title ev title,
                   r_total_revenue = total_revenue df, r_orders = orders df,
                   r_top_models = top5, r_sample = sample_rows df\<rparr>) (mkdir (fst out) fs2))))"
        using df tm cc Inr ab by (simp add: generate_pdf_def Let_def)
      have bo: "build_ok ev"
        using assms unfolding u by (cases "build_ok ev") simp_all
      have p: "p = out"
        using assms unfolding u by (simp add: bo)
      have f: "fs' = cleanup a b (tmpdir ev)
               (write_file out (Pdf \<lparr>r_title = report_title ev title,
                   r_total_revenue = total_revenue df, r_orders = orders df,
                   r_top_models = top5, r_sample = sample_rows df\<rparr>) (mkdir (fst out) fs2))"
        using assms unfolding u by (auto simp: bo)
      show ?thesis
        by (rule that [OF df tm p]) (simp only: f a b fs2)
    qed
  qed
qed

section \<open>Total revenue\<close>



section \<open>Empty input\<close>

text \<open>
  Claim C2, as the code has it. On the empty list \<^verbatim>\<open>generate_pdf\<close> fails with the KeyError
  that \<^verbatim>\<open>groupby('model')\<close> raises on a frame without that column, before the temporary
  directory or any file is created: the file system is as it was.
\<close>

theorem empty_rows_key_error:
  "generate_pdf ev parse [] out_pdf_path title fs = (Inl (KeyError ''model''), fs)"
  by (simp add: generate_pdf_def safe_df_from_rows_def astype_int_def quantity_column_def
      unit_price_column_def has_col_def top_models_def groupby_sum_def)

theorem empty_rows_key_error_witness:
  "generate_pdf fair ymd_date [] (''generated_reports'', ''r.pdf'') (Some ''t'') no_files
     = (Inl (KeyError ''model''), no_files)"
  by (rule empty_rows_key_error)

text \<open>
  Claim C2 as stated fails: the exception is not an EmptyInputError, and a file that was at
  the output path before the call is there after it.
\<close>

theorem empty_rows_error_counterexample:
  "fst (generate_pdf fair ymd_date [] (''generated_reports'', ''r.pdf'') (Some ''t'')
          \<lparr>dirs = [''generated_reports''],
             files = [((''generated_reports'', ''r.pdf''), Blob ''old'')]\<rparr>)
     = Inl (KeyError ''model'')
   \<and> exists_file
       (snd (generate_pdf fair ymd_date [] (''generated_reports'', ''r.pdf'') (Some ''t'')
          \<lparr>dirs = [''generated_reports''],
             files = [((''generated_reports'', ''r.pdf''), Blob ''old'')]\<rparr>))
       (''generated_reports'', ''r.pdf'')"
  by code_simp

section \<open>Order count\<close>

lemma nunique_card: "nunique ls = card {s. Some s \<in> set ls}"
proof -
  have "set (map the (filter (\<lambda>l. l \<noteq> None) ls)) = {s. Some s \<in> set ls}"
    by force
  then show ?thesis
    by (simp add: nunique_def length_remdups_card_conv del: set_map set_filter)
qed

lemma set_labels:
  "{s. Some s \<in> set (labels f rows)} = {s. \<exists>r \<in> set rows. f r = Some (Some s)}"
  by (auto simp: labels_def split: option.splits) force

text \<open>
  Claim C9, as the code has it. The test is for the column: when some row has the key
  \<^verbatim>\<open>order_id\<close>, the order count is the number of distinct values under it that are not
  missing (the empty string is a value like any other); when no row has the key, it is
  the number of rows.
\<close>

theorem orders_counts_present_ids:
  assumes "safe_df_from_rows L rows = Inr df"
  shows "orders df =
           (if \<exists>r \<in> set rows. f_order_id r \<noteq> None
            then card {s. \<exists>r \<in> set rows. f_order_id r = Some (Some s)}
            else length rows)"
  by (simp add: orders_def safe_df_Inr(1) [OF assms] has_col_iff nunique_card set_labels)

theorem orders_counts_present_ids_witness:
  "orders \<lparr>src = [sale ''2024-01-01'' ''A1'' ''X'' 2 10, sale ''2024-01-02'' ''A1'' ''Y'' 1 5],
           quantity = [2, 1], unit_price = [Some 10, Some 5], total = [Some 20, Some 5]\<rparr>
     = (if \<exists>r \<in> set [sale ''2024-01-01'' ''A1'' ''X'' 2 10, sale ''2024-01-02'' ''A1'' ''Y'' 1 5].
             f_order_id r \<noteq> None
        then card {s. \<exists>r \<in> set [sale ''2024-01-01'' ''A1'' ''X'' 2 10,
                                     sale ''2024-01-02'' ''A1'' ''Y'' 1 5].
                        f_order_id r = Some (Some s)}
        else length [sale ''2024-01-01'' ''A1'' ''X'' 2 10, sale ''2024-01-02'' ''A1'' ''Y'' 1 5])"
proof -
  have h: "safe_df_from_rows plain
             [sale ''2024-01-01'' ''A1'' ''X'' 2 10, sale ''2024-01-02'' ''A1'' ''Y'' 1 5]
           = Inr \<lparr>src = [sale ''2024-01-01'' ''A1'' ''X'' 2 10,
                         sale ''2024-01-02'' ''A1'' ''Y'' 1 5],
                  quantity = [2, 1], unit_price = [Some 10, Some 5],
                  total = [Some 20, Some 5]\<rparr>"
    by code_simp
  show ?thesis by (rule orders_counts_present_ids [OF h])
qed

text \<open>
  Claim C9 as stated fails on two rows that have the key with no order id in it: with
  null under the key the document shows 0 orders, with the empty string it shows 1, and
  the number of rows is 2.
\<close>

theorem orders_counterexample:
  "map_option r_orders
     (written_report fair ymd_date
        [(sale ''2024-01-01'' ''A1'' ''X'' 2 10)\<lparr>f_order_id := Some None\<rparr>,
         (sale ''2024-01-01'' ''A2'' ''Y'' 1 5)\<lparr>f_order_id := Some None\<rparr>]
        (''generated_reports'', ''r.pdf'') None no_files) = Some 0
   \<and> map_option r_orders
     (written_report fair ymd_date
        [sale ''2024-01-01'' '''' ''X'' 2 10, sale ''2024-01-01'' '''' ''Y'' 1 5]
        (''generated_reports'', ''r.pdf'') None no_files) = Some 1"
  by code_simp

section \<open>The simulated email\<close>








section \<open>Grouping and ranking\<close>

lemma set_group_keys: "set (group_keys ks) = {s. Some s \<in> set ks}"
  by (force simp: group_keys_def)

lemma distinct_group_keys: "distinct (group_keys ks)"
  by (simp add: group_keys_def)

lemma strict_sorted_group_keys: "sorted_wrt (<) (group_keys ks)"
  by (simp add: strict_sorted_iff distinct_group_keys) (simp add: group_keys_def)

lemma groupby_sum_Inr:
  assumes "groupby_sum f name df = Inr g"
  shows "has_col f (src df)"
    and "g = map (\<lambda>k. (k, group_sum (labels f (src df)) (total df) k))
               (group_keys (labels f (src df)))"
  using assms by (auto simp: groupby_sum_def Let_def split: if_splits)





lemma mset_argsort_by: "mset (argsort_by tie key xs) = mset xs"
proof -
  have "mset (map snd (enumerate 0 xs)) = mset xs" by (simp only: map_snd_enumerate)
  then have "image_mset snd (mset (enumerate 0 xs)) = mset xs" by (simp only: mset_map)
  then show ?thesis by (simp add: argsort_by_def)
qed

lemma set_argsort_by: "set (argsort_by tie key xs) = set xs"
  using mset_argsort_by [of tie key xs] by (metis set_mset_mset)

lemma length_argsort_by: "length (argsort_by tie key xs) = length xs"
  using mset_argsort_by [of tie key xs] by (metis size_mset)

lemma sorted_map_fst:
  fixes ps :: "('k::linorder \<times> nat) list"
  shows "sorted ps \<Longrightarrow> sorted (map fst ps)"
  by (induction ps) (auto simp: less_eq_prod_def)

lemma sorted_argsort_by: "sorted (map key (argsort_by tie key xs))"
proof -
  let ?f = "\<lambda>ix. (key (snd ix), tie (map key xs) (fst ix))"
  have "sorted (map ?f (sort_key ?f (enumerate 0 xs)))" by (rule sorted_sort_key)
  then have "sorted (map fst (map ?f (sort_key ?f (enumerate 0 xs))))" by (rule sorted_map_fst)
  then show ?thesis by (simp add: argsort_by_def comp_def)
qed



text \<open>The ranking of two models of equal revenue is the same whichever comes first in the
  input, whatever the sort does with equal revenues.\<close>

lemma top_models_forgets_row_order:
  "on_rows L (top_models L)
     [sale ''2024-01-01'' ''A1'' ''B'' 1 10, sale ''2024-01-01'' ''A2'' ''A'' 1 10]
   = on_rows L (top_models L)
     [sale ''2024-01-01'' ''A2'' ''A'' 1 10, sale ''2024-01-01'' ''A1'' ''B'' 1 10]"
proof -
  have a: "on_rows L (groupby_sum f_model ''model'')
       [sale ''2024-01-01'' ''A1'' ''B'' 1 10, sale ''2024-01-01'' ''A2'' ''A'' 1 10]
     = Inr [(''A'', 10), (''B'', 10)]"
    by code_simp
  have b: "on_rows L (groupby_sum f_model ''model'')
       [sale ''2024-01-01'' ''A2'' ''A'' 1 10, sale ''2024-01-01'' ''A1'' ''B'' 1 10]
     = Inr [(''A'', 10), (''B'', 10)]"
    by code_simp
  from a b show ?thesis
    by (auto simp: on_rows_def top_models_def split: sum.splits)
qed


section \<open>Rows without a model\<close>

lemma group_sum_index:
  assumes "length ks = length ts"
  shows "group_sum ks ts k = (\<Sum>i | i < length ks \<and> ks ! i = Some k. skipna (ts ! i))"
proof -
  let ?xs = "zip ks ts"
  have "group_sum ks ts k
        = sum_list (map (\<lambda>e. if fst e = Some k then skipna (snd e) else 0) ?xs)"
    by (simp add: group_sum_def sum_list_map_filter' comp_def)
  also have "\<dots> = (\<Sum>i = 0..<length ?xs. if fst (?xs ! i) = Some k then skipna (snd (?xs ! i)) else 0)"
    by (simp add: sum_list_sum_nth)
  also have "\<dots> = (\<Sum>i = 0..<length ks. if ks ! i = Some k then skipna (ts ! i) else 0)"
    by (rule sum.cong) (use assms in auto)
  also have "\<dots> = (\<Sum>i \<in> {i \<in> {0..<length ks}. ks ! i = Some k}. skipna (ts ! i))"
    by (rule sum.inter_filter [symmetric]) simp
  also have "{i \<in> {0..<length ks}. ks ! i = Some k} = {i. i < length ks \<and> ks ! i = Some k}"
    by auto
  finally show ?thesis .
qed

lemma labels_nth:
  "i < length rows \<Longrightarrow> labels f rows ! i = Some k \<longleftrightarrow> f (rows ! i) = Some (Some k)"
  by (auto simp: labels_def split: option.splits)

lemma groupby_sum_entry:
  assumes "safe_df_from_rows L rows = Inr df" and "groupby_sum f name df = Inr g" and "e \<in> set g"
  shows "(\<exists>r \<in> set rows. f r = Some (Some (fst e)))
         \<and> snd e = (\<Sum>i | i < length rows \<and> f (rows ! i) = Some (Some (fst e)). skipna (total df ! i))"
proof -
  note s = safe_df_Inr(1) [OF assms(1)]
  from groupby_sum_Inr(2) [OF assms(2)] assms(3)
  have k: "fst e \<in> set (group_keys (labels f rows))"
    and v: "snd e = group_sum (labels f rows) (total df) (fst e)"
    by (auto simp: s)
  have l: "length (labels f rows) = length (total df)"
    by (simp add: labels_def safe_df_lengths(3) [OF assms(1)])
  have "{i. i < length (labels f rows) \<and> labels f rows ! i = Some (fst e)}
        = {i. i < length rows \<and> f (rows ! i) = Some (Some (fst e))}"
    using labels_nth [of _ rows f "fst e"] by (auto simp: labels_def)
  then have "snd e = (\<Sum>i | i < length rows \<and> f (rows ! i) = Some (Some (fst e)). skipna (total df ! i))"
    by (simp add: v group_sum_index [OF l])
  moreover have "\<exists>r \<in> set rows. f r = Some (Some (fst e))"
    using k by (simp add: set_group_keys set_labels)
  ultimately show ?thesis by blast
qed

text \<open>
  Claim C6, as the code has it. The normalisation does not read the model: with any models
  in place of the given ones it yields the same three columns. In the top models of an
  accepted table every label is the model of some row, and its revenue is the sum of the
  totals of exactly the rows that carry that model: a row without a model is in no group,
  and no group stands for such rows.
\<close>

theorem missing_model_in_no_group:
  assumes "safe_df_from_rows L rows = Inr df" and "top_models L df = Inr tm"
  shows "map_sum id columns (safe_df_from_rows L (map (\<lambda>r. r\<lparr>f_model := m r\<rparr>) rows))
           = Inr (columns df)
         \<and> (\<forall>e \<in> set tm. (\<exists>r \<in> set rows. f_model r = Some (Some (fst e)))
               \<and> snd e = (\<Sum>i | i < length rows \<and> f_model (rows ! i) = Some (Some (fst e)).
                            skipna (total df ! i)))"
proof -
  note d = safe_df_Inr [OF assms(1)]
  have q: "quantity_column (map (\<lambda>r. r\<lparr>f_model := m r\<rparr>) rows) = quantity_column rows"
    by (simp add: quantity_column_def has_col_iff column_def)
  have u: "unit_price_column (map (\<lambda>r. r\<lparr>f_model := m r\<rparr>) rows) = unit_price_column rows"
    by (simp add: unit_price_column_def has_col_iff column_def)
  have a: "map_sum id columns (safe_df_from_rows L (map (\<lambda>r. r\<lparr>f_model := m r\<rparr>) rows))
           = Inr (columns df)"
    by (simp add: safe_df_from_rows_def q u d(2,3,4) columns_def)
  from assms(2) obtain g where g: "groupby_sum f_model ''model'' df = Inr g"
    and tm: "tm = take 5 (sort_values_desc L g)"
    by (auto simp: top_models_def split: sum.splits)
  have "set tm \<subseteq> set g"
    unfolding tm using set_take_subset [of 5 "sort_values_desc L g"]
    by (simp add: sort_values_desc_def set_argsort_by)
  then have b: "\<forall>e \<in> set tm. (\<exists>r \<in> set rows. f_model r = Some (Some (fst e)))
               \<and> snd e = (\<Sum>i | i < length rows \<and> f_model (rows ! i) = Some (Some (fst e)).
                            skipna (total df ! i))"
    using groupby_sum_entry [OF assms(1) g] by blast
  from a b show ?thesis by blast
qed

theorem missing_model_in_no_group_witness:
  "map_sum id columns (safe_df_from_rows plain (map (\<lambda>r. r\<lparr>f_model := Some (Some ''Z'')\<rparr>)
       [sale ''2024-01-01'' ''A1'' ''X'' 2 10,
        (sale ''2024-01-01'' ''A2'' ''Y'' 1 5)\<lparr>f_model := None\<rparr>]))
     = Inr (columns (projr (safe_df_from_rows plain
         [sale ''2024-01-01'' ''A1'' ''X'' 2 10,
          (sale ''2024-01-01'' ''A2'' ''Y'' 1 5)\<lparr>f_model := None\<rparr>])))
   \<and> (\<exists>r \<in> set [sale ''2024-01-01'' ''A1'' ''X'' 2 10,
                  (sale ''2024-01-01'' ''A2'' ''Y'' 1 5)\<lparr>f_model := None\<rparr>].
         f_model r = Some (Some ''X''))
   \<and> (20::rat) = (\<Sum>i | i < length [sale ''2024-01-01'' ''A1'' ''X'' 2 10,
                                  (sale ''2024-01-01'' ''A2'' ''Y'' 1 5)\<lparr>f_model := None\<rparr>]
                     \<and> f_model ([sale ''2024-01-01'' ''A1'' ''X'' 2 10,
                                  (sale ''2024-01-01'' ''A2'' ''Y'' 1 5)\<lparr>f_model := None\<rparr>] ! i)
                         = Some (Some ''X'').
                  skipna (total (projr (safe_df_from_rows plain
                     [sale ''2024-01-01'' ''A1'' ''X'' 2 10,
                      (sale ''2024-01-01'' ''A2'' ''Y'' 1 5)\<lparr>f_model := None\<rparr>])) ! i))"
proof -
  define R where "R = [sale ''2024-01-01'' ''A1'' ''X'' 2 10,
                      (sale ''2024-01-01'' ''A2'' ''Y'' 1 5)\<lparr>f_model := None\<rparr>]"
  have h1: "safe_df_from_rows plain R = Inr (projr (safe_df_from_rows plain R))"
    unfolding R_def by code_simp
  have h2: "top_models plain (projr (safe_df_from_rows plain R)) = Inr [(''X'', 20)]"
    unfolding R_def by code_simp
  have "map_sum id columns (safe_df_from_rows plain (map (\<lambda>r. r\<lparr>f_model := Some (Some ''Z'')\<rparr>) R))
           = Inr (columns (projr (safe_df_from_rows plain R)))
         \<and> (\<forall>e \<in> set [(''X'', 20::rat)]. (\<exists>r \<in> set R. f_model r = Some (Some (fst e)))
               \<and> snd e = (\<Sum>i | i < length R \<and> f_model (R ! i) = Some (Some (fst e)).
                            skipna (total (projr (safe_df_from_rows plain R)) ! i)))"
    by (rule missing_model_in_no_group [OF h1 h2])
  then have "map_sum id columns (safe_df_from_rows plain (map (\<lambda>r. r\<lparr>f_model := Some (Some ''Z'')\<rparr>) R))
           = Inr (columns (projr (safe_df_from_rows plain R)))
         \<and> (\<exists>r \<in> set R. f_model r = Some (Some ''X''))
         \<and> (20::rat) = (\<Sum>i | i < length R \<and> f_model (R ! i) = Some (Some ''X'').
                            skipna (total (projr (safe_df_from_rows plain R)) ! i))"
    by (simp only: list.set ball_simps fst_conv snd_conv simp_thms)
  then show ?thesis unfolding R_def .
qed

text \<open>
  Claim C6 as stated fails. Of two rows, the second without a model, the document shows X
  alone in the top models: the 5 of the second row are in the total revenue of 25 and in
  no bucket, and no bucket is labelled unknown. When no row has a model, \<^verbatim>\<open>generate_pdf\<close>
  raises the KeyError of the grouping.
\<close>

theorem missing_model_counterexample:
  "map_option (\<lambda>doc. (r_top_models doc, r_total_revenue doc))
     (written_report fair ymd_date
        [sale ''2024-01-01'' ''A1'' ''X'' 2 10,
         (sale ''2024-01-01'' ''A2'' ''Y'' 1 5)\<lparr>f_model := None\<rparr>]
        (''generated_reports'', ''r.pdf'') None no_files)
     = Some ([(''X'', 20)], 25)
   \<and> generate_pdf fair ymd_date [(sale ''2024-01-01'' ''A2'' ''Y'' 1 5)\<lparr>f_model := None\<rparr>]
        (''generated_reports'', ''r.pdf'') None no_files
     = (Inl (KeyError ''model''), no_files)"
  by code_simp

section \<open>Daily series\<close>

lemma astype_all2:
  "astype conv cs = Inr vs \<Longrightarrow> list_all2 (\<lambda>c v. conv c = Inr v) cs vs"
  by (induction cs arbitrary: vs) (auto split: sum.splits)

lemma to_datetime_Inr:
  assumes "to_datetime parse g = Inr ds"
  shows "list_all2 (\<lambda>e d. parse (fst e) = Some (fst d) \<and> snd d = snd e) g ds"
proof -
  have "list_all2 (\<lambda>e d. (case parse (fst e) of None \<Rightarrow> Inl (DateParseError (fst e))
                            | Some x \<Rightarrow> Inr (x, snd e)) = Inr d) g ds"
    using assms unfolding to_datetime_def by (rule astype_all2)
  then show ?thesis
    by (rule list_all2_mono) (auto split: option.splits)
qed

text \<open>
  Claim C7, as the code has it. For a table the normalisation accepts and whose daily
  series is built (there is a date column and every date string is read), the series has
  one entry per distinct date string, whose revenue is the sum of the totals of the rows
  with exactly that string, and its dates are in ascending order. They are strictly
  ascending, with no date twice, when distinct date strings of the table are read as
  distinct dates.
\<close>

theorem daily_series_ascending:
  assumes "safe_df_from_rows L rows = Inr df" and "daily_series parse tie df = Inr ds"
  shows "sorted (map fst ds)
         \<and> (inj_on parse {s. \<exists>r \<in> set rows. f_date r = Some (Some s)}
              \<longrightarrow> sorted_wrt (<) (map fst ds))
         \<and> length ds = card {s. \<exists>r \<in> set rows. f_date r = Some (Some s)}
         \<and> (\<forall>e \<in> set ds. \<exists>s. (\<exists>r \<in> set rows. f_date r = Some (Some s))
               \<and> parse s = Some (fst e)
               \<and> snd e = (\<Sum>i | i < length rows \<and> f_date (rows ! i) = Some (Some s).
                            skipna (total df ! i)))"
proof -
  let ?S = "{s. \<exists>r \<in> set rows. f_date r = Some (Some s)}"
  from assms(2) obtain g ds0 where g: "groupby_sum f_date ''date'' df = Inr g"
    and p: "to_datetime parse g = Inr ds0" and ds: "ds = argsort_by tie fst ds0"
    by (auto simp: daily_series_def split: sum.splits)
  note a = to_datetime_Inr [OF p]
  note s = safe_df_Inr(1) [OF assms(1)]
  have keys: "map fst g = group_keys (labels f_date rows)"
    using groupby_sum_Inr(2) [OF g] by (simp add: s comp_def)
  have sk: "set (map fst g) = ?S"
    by (simp only: keys set_group_keys set_labels)
  have dk: "distinct (map fst g)"
    by (simp only: keys distinct_group_keys)
  have len: "length ds0 = length g" using a by (simp add: list_all2_lengthD)
  have fstd: "map (Some \<circ> fst) ds0 = map (parse \<circ> fst) g"
    using a by (induction g ds0 rule: list_all2_induct) auto
  have srt: "sorted (map fst ds)" unfolding ds by (rule sorted_argsort_by)
  have strict: "sorted_wrt (<) (map fst ds)" if inj: "inj_on parse ?S"
  proof -
    define ks where "ks = map fst g"
    have "distinct ks" and "inj_on parse (set ks)"
      using dk inj sk by (simp_all only: ks_def)
    then have "distinct (map parse ks)" by (simp only: distinct_map simp_thms)
    moreover have "map Some (map fst ds0) = map parse ks"
      using fstd by (simp add: ks_def)
    ultimately have "distinct (map Some (map fst ds0))" by simp
    then have "distinct (map fst ds0)" by (simp only: distinct_map)
    moreover have "mset (map fst ds) = mset (map fst ds0)"
      by (simp add: ds mset_argsort_by)
    ultimately have "distinct (map fst ds)"
      by (metis mset_eq_imp_distinct_iff)
    with srt show ?thesis by (simp add: strict_sorted_iff)
  qed
  have card: "length ds = card ?S"
  proof -
    have "length ds = length (map fst g)" by (simp add: ds len length_argsort_by)
    also have "\<dots> = card (set (map fst g))" using dk by (rule distinct_card [symmetric])
    finally show ?thesis by (simp only: sk)
  qed
  have ent: "\<exists>s. (\<exists>r \<in> set rows. f_date r = Some (Some s)) \<and> parse s = Some (fst e)
               \<and> snd e = (\<Sum>i | i < length rows \<and> f_date (rows ! i) = Some (Some s).
                            skipna (total df ! i))"
    if e: "e \<in> set ds" for e
  proof -
    from e have "e \<in> set ds0" by (simp add: ds set_argsort_by)
    then obtain i where i: "i < length ds0" and ei: "ds0 ! i = e"
      by (auto simp: in_set_conv_nth)
    define x where "x = g ! i"
    have "parse (fst (g ! i)) = Some (fst (ds0 ! i)) \<and> snd (ds0 ! i) = snd (g ! i)"
      using a i by (rule list_all2_nthD2)
    then have px: "parse (fst x) = Some (fst e)" and vx: "snd e = snd x"
      by (simp_all add: x_def ei)
    have x: "x \<in> set g" using i len by (simp add: x_def)
    from groupby_sum_entry [OF assms(1) g x] px vx show ?thesis by auto
  qed
  from srt strict card ent show ?thesis by blast
qed

theorem daily_series_ascending_witness:
  "sorted (map fst [((2024::nat, 1::nat, 1::nat), 5::rat), ((2024, 1, 2), 20)])
   \<and> sorted_wrt (<) (map fst [((2024::nat, 1::nat, 1::nat), 5::rat), ((2024, 1, 2), 20)])
   \<and> length [((2024::nat, 1::nat, 1::nat), 5::rat), ((2024, 1, 2), 20)]
       = card {s. \<exists>r \<in> set [sale ''2024-01-02'' ''A1'' ''X'' 2 10,
                                 sale ''2024-01-01'' ''A2'' ''Y'' 1 5].
                    f_date r = Some (Some s)}"
proof -
  have h1: "safe_df_from_rows plain [sale ''2024-01-02'' ''A1'' ''X'' 2 10,
                               sale ''2024-01-01'' ''A2'' ''Y'' 1 5]
            = Inr (projr (safe_df_from_rows plain [sale ''2024-01-02'' ''A1'' ''X'' 2 10,
                                             sale ''2024-01-01'' ''A2'' ''Y'' 1 5]))"
    by code_simp
  have h2: "daily_series ymd_date in_place
              (projr (safe_df_from_rows plain [sale ''2024-01-02'' ''A1'' ''X'' 2 10,
                                         sale ''2024-01-01'' ''A2'' ''Y'' 1 5]))
            = Inr [((2024, 1, 1), 5), ((2024, 1, 2), 20)]"
    by code_simp
  have v1: "ymd_date ''2024-01-02'' = Some (2024, 1, 2)" by code_simp
  have v2: "ymd_date ''2024-01-01'' = Some (2024, 1, 1)" by code_simp
  have inj: "inj_on ymd_date {s. \<exists>r \<in> set [sale ''2024-01-02'' ''A1'' ''X'' 2 10,
                                               sale ''2024-01-01'' ''A2'' ''Y'' 1 5].
                                  f_date r = Some (Some s)}"
    by (auto simp: inj_on_def sale_def v1 v2)
  from daily_series_ascending [OF h1 h2] inj show ?thesis by blast
qed

text \<open>
  Claim C7 as stated fails when one day is written in two ways: the rows dated 2024-01-01
  and 2024-1-1 are two groups, the series has the first of January 2024 twice, and the
  report is generated.
\<close>

theorem daily_series_duplicate_counterexample:
  "on_rows plain (daily_series ymd_date in_place)
     [sale ''2024-01-01'' ''A1'' ''X'' 2 10, sale ''2024-1-1'' ''A2'' ''Y'' 1 5]
   = Inr [((2024, 1, 1), 20), ((2024, 1, 1), 5)]
   \<and> fst (generate_pdf fair ymd_date
       [sale ''2024-01-01'' ''A1'' ''X'' 2 10, sale ''2024-1-1'' ''A2'' ''Y'' 1 5]
       (''generated_reports'', ''r.pdf'') None no_files) = Inr (''generated_reports'', ''r.pdf'')"
  by code_simp

section \<open>Temporary chart files\<close>

text \<open>
  When \<^verbatim>\<open>generate_pdf\<close> returns, the clean-up has run: with a fresh temporary directory,
  neither chart file nor the directory is left, and the document is at the output path.
\<close>

lemma cleanup_on_success:
  assumes "generate_pdf ev parse rows out title fs = (Inr p, fs')"
    and "\<forall>e \<in> set (files fs). fst (fst e) \<noteq> tmpdir ev" and "fst out \<noteq> tmpdir ev"
  shows "\<not> exists_file fs' (tmpdir ev, ''pie.png'') \<and> \<not> exists_file fs' (tmpdir ev, ''daily.png'')
         \<and> tmpdir ev \<notin> set (dirs fs') \<and> p = out \<and> exists_file fs' out"
proof -
  from assms(1) obtain doc where p: "p = out"
    and fs': "fs' = cleanup (tmpdir ev, ''pie.png'') (tmpdir ev, ''daily.png'') (tmpdir ev)
           (write_file out doc
             (mkdir (fst out)
               (write_file (tmpdir ev, ''daily.png'') Png
                 (write_file (tmpdir ev, ''pie.png'') Png (mkdir (tmpdir ev) fs)))))"
    by (rule generate_pdf_Inr)
  define fs4 where "fs4 = write_file out doc
             (mkdir (fst out)
               (write_file (tmpdir ev, ''daily.png'') Png
                 (write_file (tmpdir ev, ''pie.png'') Png (mkdir (tmpdir ev) fs))))"
  define fs6 where "fs6 = remove_file (tmpdir ev, ''daily.png'') (remove_file (tmpdir ev, ''pie.png'') fs4)"
  have e1: "exists_file fs4 (tmpdir ev, ''pie.png'')"
    using assms(3) by (auto simp: fs4_def exists_file_def lookup_write_file files_mkdir)
  have e2: "exists_file (remove_file (tmpdir ev, ''pie.png'') fs4) (tmpdir ev, ''daily.png'')"
    using assms(3)
    by (auto simp: fs4_def exists_file_def lookup_write_file lookup_remove_file files_mkdir)
  have c: "fs' = rmdir (tmpdir ev) fs6"
    by (simp add: fs' cleanup_def Let_def e1 e2 fs4_def [symmetric] fs6_def)
  have l: "map_of (files fs6) q = (if fst q = tmpdir ev then None
              else if q = out then Some doc else map_of (files fs) q)" for q
  proof -
    have "map_of (files fs) q = None" if "fst q = tmpdir ev"
      using that assms(2) by (force simp: map_of_eq_None_iff)
    then show ?thesis
      using assms(3)
      by (cases q) (auto simp: fs6_def fs4_def lookup_write_file lookup_remove_file files_mkdir)
  qed
  have nt: "\<not> list_ex (\<lambda>e. fst (fst e) = tmpdir ev) (files fs6)"
  proof
    assume "list_ex (\<lambda>e. fst (fst e) = tmpdir ev) (files fs6)"
    then obtain q c where "(q, c) \<in> set (files fs6)" and q: "fst q = tmpdir ev"
      by (auto simp: list_ex_iff)
    then have "map_of (files fs6) q \<noteq> None"
      by (metis weak_map_of_SomeI option.distinct(1))
    with l [of q] q show False by simp
  qed
  have d: "tmpdir ev \<notin> set (dirs fs')"
    using nt by (simp add: c rmdir_def)
  have f: "map_of (files fs') q = map_of (files fs6) q" for q
    by (simp add: c files_rmdir)
  show ?thesis
    using d p assms(3) by (auto simp: exists_file_def f l)
qed

text \<open>
  Claim C8 does not hold of the code: the clean-up is the last block of \<^verbatim>\<open>generate_pdf\<close> and
  no exception path reaches it. When the document cannot be built, both chart files and
  the temporary directory stay; when the chart of the daily series fails (here on rows
  without a date), the pie chart and the directory stay.
\<close>

theorem cleanup_skipped_on_failure:
  "generate_pdf (fair\<lparr>build_ok := False\<rparr>) ymd_date scenario (''generated_reports'', ''r.pdf'')
      (Some ''t'') no_files
   = (Inl ComposeError,
      \<lparr>dirs = [''generated_reports'', ''/tmp/report_1''],
        files = [((''/tmp/report_1'', ''daily.png''), Png),
                 ((''/tmp/report_1'', ''pie.png''), Png)]\<rparr>)
   \<and> generate_pdf fair ymd_date [(sale ''2024-01-01'' ''A1'' ''X'' 2 10)\<lparr>f_date := None\<rparr>]
        (''generated_reports'', ''r.pdf'') (Some ''t'') no_files
   = (Inl (KeyError ''date''),
      \<lparr>dirs = [''/tmp/report_1''], files = [((''/tmp/report_1'', ''pie.png''), Png)]\<rparr>)"
  by code_simp

end
